theory Spec2Isabelle
  imports Complex_Main
begin

section \<open>JavaScript numbers\<close>

text \<open>
  The three calculators of \<^verbatim>\<open>src/src/App.jsx\<close> (and their earlier versions in
  \<^verbatim>\<open>src/unnamed/part_000\<close>) compute with JavaScript numbers. A number is modelled as
  a finite value, one of the two infinities, or NaN. Finite values are exact reals:
  the rounding of binary floating point and the overflow of large finite values to an
  infinity are not modelled, and the two zeros are identified (a zero divisor counts
  as +0). The special values follow ECMAScript: NaN is contagious, \<open>\<infinity> - \<infinity>\<close>,
  \<open>0 * \<infinity>\<close>, \<open>0 / 0\<close> and \<open>\<infinity> / \<infinity>\<close> are NaN, and a non-zero value divided by zero
  is an infinity.

  What follows is therefore about the formulas, the guards, the special values and the
  shape of the results. It is not about the digits of a double: in the code \<open>1 + i\<close> is
  \<open>1\<close> for a tiny \<open>i\<close>, a power or a product can overflow to an infinity or underflow to
  zero, and a sum of two amounts can be off by one unit in the last place.
\<close>

datatype num = Fin real | PInf | NInf | NaN

instantiation num :: "{zero, one, plus, uminus, minus, times, divide}"
begin

definition zero_num :: num where
  "zero_num = Fin 0"

definition one_num :: num where
  "one_num = Fin 1"

fun plus_num :: "num \<Rightarrow> num \<Rightarrow> num" where
  "plus_num NaN _ = NaN"
| "plus_num _ NaN = NaN"
| "plus_num (Fin a) (Fin b) = Fin (a + b)"
| "plus_num PInf NInf = NaN"
| "plus_num NInf PInf = NaN"
| "plus_num PInf _ = PInf"
| "plus_num _ PInf = PInf"
| "plus_num NInf _ = NInf"
| "plus_num _ NInf = NInf"

fun uminus_num :: "num \<Rightarrow> num" where
  "uminus_num (Fin a) = Fin (- a)"
| "uminus_num PInf = NInf"
| "uminus_num NInf = PInf"
| "uminus_num NaN = NaN"

definition minus_num :: "num \<Rightarrow> num \<Rightarrow> num" where
  "minus_num a b = a + (- b)"

fun times_num :: "num \<Rightarrow> num \<Rightarrow> num" where
  "times_num NaN _ = NaN"
| "times_num _ NaN = NaN"
| "times_num (Fin a) (Fin b) = Fin (a * b)"
| "times_num (Fin a) PInf = (if a = 0 then NaN else if 0 < a then PInf else NInf)"
| "times_num (Fin a) NInf = (if a = 0 then NaN else if 0 < a then NInf else PInf)"
| "times_num PInf (Fin b) = (if b = 0 then NaN else if 0 < b then PInf else NInf)"
| "times_num NInf (Fin b) = (if b = 0 then NaN else if 0 < b then NInf else PInf)"
| "times_num PInf PInf = PInf"
| "times_num PInf NInf = NInf"
| "times_num NInf PInf = NInf"
| "times_num NInf NInf = PInf"

fun divide_num :: "num \<Rightarrow> num \<Rightarrow> num" where
  "divide_num NaN _ = NaN"
| "divide_num _ NaN = NaN"
| "divide_num (Fin a) (Fin b) =
     (if b = 0 then (if a = 0 then NaN else if 0 < a then PInf else NInf)
      else Fin (a / b))"
| "divide_num (Fin a) _ = Fin 0"
| "divide_num PInf (Fin b) = (if 0 \<le> b then PInf else NInf)"
| "divide_num NInf (Fin b) = (if 0 \<le> b then NInf else PInf)"
| "divide_num _ _ = NaN"

instance ..

end

instantiation num :: inverse
begin

definition inverse_num :: "num \<Rightarrow> num" where
  "inverse_num a = divide (Fin 1) a"

instance ..

end

text \<open>
  Addition of numbers is associative and commutative with unit 0 (also on the special
  values), so sums over lists and finite sets of numbers are available.
\<close>

instantiation num :: comm_monoid_add
begin

instance
proof (standard, goal_cases)
  case (1 u v w)
  show ?case
    by (cases u; cases v; cases w; simp)
next
  case (2 u v)
  show ?case
    by (cases u; cases v; simp)
next
  case (3 u)
  show ?case
    by (cases u; simp add: zero_num_def)
qed

end

text \<open>The relational operator \<^verbatim>\<open><\<close>: false as soon as one operand is NaN.\<close>

fun js_lt :: "num \<Rightarrow> num \<Rightarrow> bool" where
  "js_lt NaN _ = False"
| "js_lt _ NaN = False"
| "js_lt (Fin a) (Fin b) = (a < b)"
| "js_lt _ NInf = False"
| "js_lt NInf _ = True"
| "js_lt PInf _ = False"
| "js_lt _ PInf = True"

text \<open>\<^verbatim>\<open>Number.isFinite\<close>.\<close>

fun isFinite :: "num \<Rightarrow> bool" where
  "isFinite (Fin a) = True"
| "isFinite _ = False"

text \<open>An integer-valued number (a loop counter, a count of periods) used in arithmetic.\<close>

definition num_of_int :: "int \<Rightarrow> num" where
  "num_of_int k = Fin (of_int k)"

text \<open>
  \<^verbatim>\<open>Math.pow\<close>, at the exponents the calculators use (integers). An exponent of zero
  gives 1 whatever the base, NaN included.
\<close>

fun Math_pow :: "num \<Rightarrow> int \<Rightarrow> num" where
  "Math_pow (Fin a) e =
     (if e = 0 then Fin 1
      else if 0 < e then Fin (a ^ nat e)
      else if a = 0 then PInf
      else Fin (1 / a ^ nat (- e)))"
| "Math_pow PInf e = (if e = 0 then Fin 1 else if 0 < e then PInf else Fin 0)"
| "Math_pow NInf e =
     (if e = 0 then Fin 1
      else if 0 < e then (if even e then PInf else NInf)
      else Fin 0)"
| "Math_pow NaN e = (if e = 0 then Fin 1 else NaN)"

text \<open>\<^verbatim>\<open>Math.round\<close> rounds to the nearest integer, a half towards \<open>+\<infinity>\<close>.\<close>

fun Math_round :: "num \<Rightarrow> num" where
  "Math_round (Fin a) = Fin (of_int \<lfloor>a + 1 / 2\<rfloor>)"
| "Math_round x = x"

text \<open>\<^verbatim>\<open>Math.max\<close> of two numbers: NaN if either is.\<close>

fun Math_max :: "num \<Rightarrow> num \<Rightarrow> num" where
  "Math_max NaN _ = NaN"
| "Math_max _ NaN = NaN"
| "Math_max (Fin a) (Fin b) = Fin (max a b)"
| "Math_max PInf _ = PInf"
| "Math_max _ PInf = PInf"
| "Math_max NInf y = y"
| "Math_max x NInf = x"

definition Number_EPSILON :: num where
  "Number_EPSILON = Fin (1 / 2 ^ 52)"

text \<open>
  \<^verbatim>\<open>const round2 = (x) => Math.round((x + Number.EPSILON) * 100) / 100;\<close>
  On exact reals a half-cent tie goes up; on the code's doubles it can go either way
  (\<open>4.015\<close> is stored just below the tie and gives \<open>4.01\<close>). Only the propagation of NaN
  through \<open>round2\<close> is used below.
\<close>

definition round2 :: "num \<Rightarrow> num" where
  "round2 x = Math_round ((x + Number_EPSILON) * Fin 100) / Fin 100"

text \<open>
  The elements of \<^verbatim>\<open>Array.from({ length: len }, (_, k) => f(k))\<close> once the array exists:
  the indices \<open>0 .. len - 1\<close>, none when \<open>len \<le> 0\<close>.
\<close>

definition Array_from_length :: "int \<Rightarrow> (int \<Rightarrow> 'a) \<Rightarrow> 'a list" where
  "Array_from_length len f = map f [0..len - 1]"

text \<open>
  The errors a calculator can throw. \<^verbatim>\<open>Array.from\<close> creates the array before it fills
  it, and a length of \<open>2^32\<close> or more is not an array length: the call throws a
  RangeError. \<^verbatim>\<open>xs[idx]\<close> is \<^verbatim>\<open>undefined\<close> out of range, and reading a property of it
  throws a TypeError.
\<close>

datatype error = TypeError | RangeError

definition Array_from :: "int \<Rightarrow> (int \<Rightarrow> 'a) \<Rightarrow> error + 'a list" where
  "Array_from len f =
     (if 2 ^ 32 \<le> len then Inl RangeError else Inr (Array_from_length len f))"

text \<open>\<^verbatim>\<open>xs.reduce((a, b) => a + b, 0)\<close>: a left fold from 0.\<close>

definition reduce_add :: "num list \<Rightarrow> num" where
  "reduce_add xs = foldl (+) (Fin 0) xs"

definition index :: "'a list \<Rightarrow> int \<Rightarrow> 'a option" where
  "index xs idx = (if 0 \<le> idx \<and> nat idx < length xs then Some (xs ! nat idx) else None)"

section \<open>Bond cash flows\<close>

text \<open>
  The callers pass every field, each one checked with \<^verbatim>\<open>Number.isFinite\<close> (and parsed
  with \<^verbatim>\<open>parseInt\<close> for the counts), so the inputs are reals and integers; the default
  values of the destructured parameters are never used. The fields \<^verbatim>\<open>years\<close>,
  \<^verbatim>\<open>total\<close> and \<^verbatim>\<open>principal\<close> occur in several objects of the source and \<^verbatim>\<open>c\<close>,
  \<^verbatim>\<open>r\<close>, \<^verbatim>\<open>n\<close> are too short for global names, hence the prefixes. A field name is a
  constant, so the local variables \<^verbatim>\<open>flows\<close>, \<^verbatim>\<open>rows\<close>, \<^verbatim>\<open>pmt\<close>, \<^verbatim>\<open>price\<close>, \<^verbatim>\<open>interest\<close>,
  \<^verbatim>\<open>data\<close>, \<^verbatim>\<open>twoStage\<close> and the three prices are written \<open>fl\<close>, \<open>rws\<close>, \<open>p\<close>, \<open>pr\<close>,
  \<open>interest0\<close> and \<open>interest1\<close>, \<open>data0\<close>, \<open>twoStage0\<close>, \<open>priceNoGrowth0\<close> and so on.

  In \<open>buildBondCashFlows\<close> the length given to \<^verbatim>\<open>Array.from\<close> is the number of flows that
  the loop before it has pushed, so the call is reached with a length that an array
  already has: the elements are taken with \<open>Array_from_length\<close>. A run that pushes \<open>2^32\<close>
  flows or more is not covered.
\<close>

record BondInputs =
  face :: real
  bond_years :: int
  couponRate :: real
  ytm :: real
  freq :: int

record CashFlowPoint =
  period :: num
  coupon :: num
  other :: num
  flow_total :: num

record BondResult =
  flows :: "CashFlowPoint list"
  price :: num
  bond_c :: num
  bond_r :: num
  bond_n :: int

text \<open>
  \<^verbatim>\<open>for (let t = 1; t <= n; t++) { const cf = t === n ? c + face : c;
    flows.push({ period: t / freq, coupon: c, other: t === n ? face : 0, total: cf }); }\<close>
\<close>

function bondFlowsLoop ::
  "BondInputs \<Rightarrow> int \<Rightarrow> num \<Rightarrow> int \<Rightarrow> CashFlowPoint list \<Rightarrow> CashFlowPoint list" where
  "bondFlowsLoop inp n c t fl =
     (if t \<le> n then
        (let cf = (if t = n then c + Fin (face inp) else c) in
         bondFlowsLoop inp n c (t + 1)
           (fl @ [\<lparr>period = num_of_int t / num_of_int (freq inp), coupon = c,
                   other = (if t = n then Fin (face inp) else Fin 0), flow_total = cf\<rparr>]))
      else fl)"
  by pat_completeness auto
termination
  by (relation "measure (\<lambda>(inp, n, c, t, fl). nat (n + 1 - t))") auto

definition buildBondCashFlows :: "BondInputs \<Rightarrow> BondResult" where
  "buildBondCashFlows inp =
     (let n = bond_years inp * freq inp;
          c = (Fin (couponRate inp) * Fin (face inp)) / num_of_int (freq inp);
          r = Fin (ytm inp) / num_of_int (freq inp);
          fl = bondFlowsLoop inp n c 1 [];
          pvCoupons = reduce_add (Array_from_length n (\<lambda>k. c / Math_pow (1 + r) (k + 1)));
          pvRedemption = Fin (face inp) / Math_pow (1 + r) n;
          pr = pvCoupons + pvRedemption
      in \<lparr>flows = fl, price = pr, bond_c = c, bond_r = r, bond_n = n\<rparr>)"

text \<open>The function of the same name in \<^verbatim>\<open>src/unnamed/part_000\<close>, lines 37 to 50.\<close>

function bondFlowsLoop_part000 ::
  "BondInputs \<Rightarrow> int \<Rightarrow> num \<Rightarrow> int \<Rightarrow> CashFlowPoint list \<Rightarrow> CashFlowPoint list" where
  "bondFlowsLoop_part000 inp n c t fl =
     (if t \<le> n then
        (let cf = (if t = n then c + Fin (face inp) else c) in
         bondFlowsLoop_part000 inp n c (t + 1)
           (fl @ [\<lparr>period = num_of_int t / num_of_int (freq inp), coupon = c,
                   other = (if t = n then Fin (face inp) else Fin 0), flow_total = cf\<rparr>]))
      else fl)"
  by pat_completeness auto
termination
  by (relation "measure (\<lambda>(inp, n, c, t, fl). nat (n + 1 - t))") auto

definition buildBondCashFlows_part000 :: "BondInputs \<Rightarrow> BondResult" where
  "buildBondCashFlows_part000 inp =
     (let n = bond_years inp * freq inp;
          c = (Fin (couponRate inp) * Fin (face inp)) / num_of_int (freq inp);
          r = Fin (ytm inp) / num_of_int (freq inp);
          fl = bondFlowsLoop_part000 inp n c 1 [];
          pvCoupons = reduce_add (Array_from_length n (\<lambda>k. c / Math_pow (1 + r) (k + 1)));
          pvRedemption = Fin (face inp) / Math_pow (1 + r) n;
          pr = pvCoupons + pvRedemption
      in \<lparr>flows = fl, price = pr, bond_c = c, bond_r = r, bond_n = n\<rparr>)"

section \<open>Mortgage schedule\<close>

record MortgageInputs =
  principal :: real
  rate :: real
  mortgage_years :: int

record AmortizationRow =
  month :: int
  interest :: num
  row_principal :: num
  row_total :: num
  balance :: num

record MortgageResult =
  rows :: "AmortizationRow list"
  pmt :: num

text \<open>
  The body of the loop at month \<open>t\<close>, from the balance \<open>bal\<close> it starts with: the row it
  pushes and the balance it leaves.
  \<^verbatim>\<open>let interest = round2(bal * i);
  let principalPaid = round2(pmt - interest);
  if (t === n) { principalPaid = round2(bal); interest = round2(pmt - principalPaid); }
  bal = round2(bal - principalPaid);
  rows.push({ month: t, interest, principal: principalPaid,
              total: round2(interest + principalPaid), balance: Math.max(bal, 0) });\<close>
\<close>

definition mortgageStep :: "int \<Rightarrow> num \<Rightarrow> num \<Rightarrow> int \<Rightarrow> num \<Rightarrow> AmortizationRow \<times> num" where
  "mortgageStep n i p t bal =
     (let interest0 = round2 (bal * i);
          principalPaid0 = round2 (p - interest0);
          principalPaid = (if t = n then round2 bal else principalPaid0);
          interest1 = (if t = n then round2 (p - principalPaid) else interest0);
          bal' = round2 (bal - principalPaid)
      in (\<lparr>month = t, interest = interest1, row_principal = principalPaid,
           row_total = round2 (interest1 + principalPaid),
           balance = Math_max bal' (Fin 0)\<rparr>, bal'))"

text \<open>\<^verbatim>\<open>for (let t = 1; t <= n; t++) { ... }\<close>\<close>

function mortgageLoop ::
  "int \<Rightarrow> num \<Rightarrow> num \<Rightarrow> int \<Rightarrow> num \<Rightarrow> AmortizationRow list \<Rightarrow> AmortizationRow list" where
  "mortgageLoop n i p t bal rws =
     (if t \<le> n then
        mortgageLoop n i p (t + 1) (snd (mortgageStep n i p t bal))
          (rws @ [fst (mortgageStep n i p t bal)])
      else rws)"
  by pat_completeness auto
termination
  by (relation "measure (\<lambda>(n, i, p, t, bal, rws). nat (n + 1 - t))") auto

definition buildMortgageSchedule :: "MortgageInputs \<Rightarrow> MortgageResult" where
  "buildMortgageSchedule inp =
     (let m = 12;
          n = mortgage_years inp * m;
          i = Fin (rate inp) / num_of_int m;
          p = round2 ((i * Fin (principal inp)) / (1 - Math_pow (1 + i) (- n)));
          bal = Fin (principal inp)
      in \<lparr>rows = mortgageLoop n i p 1 bal [], pmt = p\<rparr>)"

section \<open>Dividend series\<close>

record DividendInputs =
  D0 :: real
  required :: real
  gConst :: real
  gShort :: real
  gLong :: real
  shortYears :: int
  horizonYears :: int

text \<open>
  An element of the intermediate arrays \<^verbatim>\<open>constant\<close>, \<^verbatim>\<open>constGrowth\<close> and
  \<^verbatim>\<open>twoStage\<close>: \<^verbatim>\<open>{ year, constDiv }\<close>, \<^verbatim>\<open>{ year, constGrow }\<close> or
  \<^verbatim>\<open>{ year, twoStage }\<close>.
\<close>

record SeriesEntry =
  entry_year :: int
  entry_value :: num

record DividendSeriesPoint =
  year :: int
  constDiv :: num
  constGrow :: num
  twoStage :: num

record DividendResult =
  data :: "DividendSeriesPoint list"
  priceNoGrowth :: num
  priceGordon :: num
  priceTwoStage :: num

text \<open>
  \<^verbatim>\<open>for (let t = 1; t <= horizonYears; t++) {
    if (t > 1) Dt *= 1 + gConst;
    constGrowth.push({ year: t, constGrow: Dt }); }\<close>
\<close>

function constGrowthLoop ::
  "DividendInputs \<Rightarrow> int \<Rightarrow> num \<Rightarrow> SeriesEntry list \<Rightarrow> SeriesEntry list" where
  "constGrowthLoop inp t Dt acc =
     (if t \<le> horizonYears inp then
        (let Dt' = (if 1 < t then Dt * (1 + Fin (gConst inp)) else Dt) in
         constGrowthLoop inp (t + 1) Dt' (acc @ [\<lparr>entry_year = t, entry_value = Dt'\<rparr>]))
      else acc)"
  by pat_completeness auto
termination
  by (relation "measure (\<lambda>(inp, t, Dt, acc). nat (horizonYears inp + 1 - t))") auto

text \<open>
  \<^verbatim>\<open>for (let t = 1; t <= horizonYears; t++) {
    if (t > 1) { const g = t <= shortYears ? gShort : gLong; Dt *= 1 + g; }
    twoStage.push({ year: t, twoStage: Dt }); }\<close>
\<close>

function twoStageLoop ::
  "DividendInputs \<Rightarrow> int \<Rightarrow> num \<Rightarrow> SeriesEntry list \<Rightarrow> SeriesEntry list" where
  "twoStageLoop inp t Dt acc =
     (if t \<le> horizonYears inp then
        (let Dt' = (if 1 < t
                    then (let g = (if t \<le> shortYears inp then Fin (gShort inp) else Fin (gLong inp))
                          in Dt * (1 + g))
                    else Dt) in
         twoStageLoop inp (t + 1) Dt' (acc @ [\<lparr>entry_year = t, entry_value = Dt'\<rparr>]))
      else acc)"
  by pat_completeness auto
termination
  by (relation "measure (\<lambda>(inp, t, Dt, acc). nat (horizonYears inp + 1 - t))") auto

text \<open>
  Each \<^verbatim>\<open>Array.from\<close> of the function can throw, in the order of the source: the one that
  builds \<^verbatim>\<open>data\<close>, then the one under \<^verbatim>\<open>cf1\<close>. The two loops push \<open>horizonYears\<close> entries
  before that; with \<open>2^32\<close> entries or more the pushes of the code fail with the same
  RangeError that is raised here by the \<^verbatim>\<open>Array.from\<close> that follows them.

  The three valuations, the same text in both files:
  \<^verbatim>\<open>const priceGordon = gConst < required ? (D0 * (1 + gConst)) / (required - gConst) : NaN;
  const cf1 = Array.from({ length: shortYears }, (_, k) =>
    (D0 * Math.pow(1 + gShort, k + 1)) / Math.pow(1 + required, k + 1)).reduce((a, b) => a + b, 0);
  const D_T1 = D0 * Math.pow(1 + gShort, shortYears) * (1 + gLong);
  const TV = gLong < required ? D_T1 / (required - gLong) : NaN;
  const pvTV = TV / Math.pow(1 + required, shortYears);
  const priceTwoStage = cf1 + pvTV;\<close>
\<close>

definition buildDividendSeries :: "DividendInputs \<Rightarrow> error + DividendResult" where
  "buildDividendSeries inp =
     (let constGrowth = constGrowthLoop inp 1 (Fin (D0 inp) * (1 + Fin (gConst inp))) [];
          twoStage0 = twoStageLoop inp 1 (Fin (D0 inp) * (1 + Fin (gShort inp))) []
      in case Array_from (horizonYears inp) (\<lambda>idx.
                case (index constGrowth idx, index twoStage0 idx) of
                  (Some cg, Some ts) \<Rightarrow>
                    Some \<lparr>year = idx + 1, constDiv = Fin (D0 inp),
                          constGrow = entry_value cg, twoStage = entry_value ts\<rparr>
                | _ \<Rightarrow> None) of
           Inl e \<Rightarrow> Inl e
         | Inr points \<Rightarrow>
            (case those points of
               None \<Rightarrow> Inl TypeError
             | Some data0 \<Rightarrow>
                (let priceNoGrowth0 = Fin (D0 inp) / Fin (required inp);
                     priceGordon0 = (if js_lt (Fin (gConst inp)) (Fin (required inp))
                                     then (Fin (D0 inp) * (1 + Fin (gConst inp))) /
                                          (Fin (required inp) - Fin (gConst inp))
                                     else NaN)
                 in case Array_from (shortYears inp) (\<lambda>k.
                           (Fin (D0 inp) * Math_pow (1 + Fin (gShort inp)) (k + 1)) /
                           Math_pow (1 + Fin (required inp)) (k + 1)) of
                      Inl e \<Rightarrow> Inl e
                    | Inr terms \<Rightarrow>
                       (let cf1 = reduce_add terms;
                            D_T1 = Fin (D0 inp) *
                                   Math_pow (1 + Fin (gShort inp)) (shortYears inp) *
                                   (1 + Fin (gLong inp));
                            TV = (if js_lt (Fin (gLong inp)) (Fin (required inp))
                                  then D_T1 / (Fin (required inp) - Fin (gLong inp))
                                  else NaN);
                            pvTV = TV / Math_pow (1 + Fin (required inp)) (shortYears inp);
                            priceTwoStage0 = cf1 + pvTV
                        in Inr \<lparr>data = data0, priceNoGrowth = priceNoGrowth0,
                                 priceGordon = priceGordon0,
                                 priceTwoStage = priceTwoStage0\<rparr>))))"

text \<open>
  The function of the same name in \<^verbatim>\<open>src/unnamed/part_000\<close>, lines 70 to 101. It builds
  one more array, \<^verbatim>\<open>constant\<close>, and reads \<^verbatim>\<open>constDiv\<close> from it.
\<close>

function constGrowthLoop_part000 ::
  "DividendInputs \<Rightarrow> int \<Rightarrow> num \<Rightarrow> SeriesEntry list \<Rightarrow> SeriesEntry list" where
  "constGrowthLoop_part000 inp t Dt acc =
     (if t \<le> horizonYears inp then
        (let Dt' = (if 1 < t then Dt * (1 + Fin (gConst inp)) else Dt) in
         constGrowthLoop_part000 inp (t + 1) Dt' (acc @ [\<lparr>entry_year = t, entry_value = Dt'\<rparr>]))
      else acc)"
  by pat_completeness auto
termination
  by (relation "measure (\<lambda>(inp, t, Dt, acc). nat (horizonYears inp + 1 - t))") auto

function twoStageLoop_part000 ::
  "DividendInputs \<Rightarrow> int \<Rightarrow> num \<Rightarrow> SeriesEntry list \<Rightarrow> SeriesEntry list" where
  "twoStageLoop_part000 inp t Dt acc =
     (if t \<le> horizonYears inp then
        (let Dt' = (if 1 < t
                    then (let currentG = (if t \<le> shortYears inp then Fin (gShort inp)
                                          else Fin (gLong inp))
                          in Dt * (1 + currentG))
                    else Dt) in
         twoStageLoop_part000 inp (t + 1) Dt' (acc @ [\<lparr>entry_year = t, entry_value = Dt'\<rparr>]))
      else acc)"
  by pat_completeness auto
termination
  by (relation "measure (\<lambda>(inp, t, Dt, acc). nat (horizonYears inp + 1 - t))") auto

definition buildDividendSeries_part000 :: "DividendInputs \<Rightarrow> error + DividendResult" where
  "buildDividendSeries_part000 inp =
     (case Array_from (horizonYears inp)
             (\<lambda>k. \<lparr>entry_year = k + 1, entry_value = Fin (D0 inp)\<rparr>) of
        Inl e \<Rightarrow> Inl e
      | Inr constant \<Rightarrow>
         (let constGrowth =
                constGrowthLoop_part000 inp 1 (Fin (D0 inp) * (1 + Fin (gConst inp))) [];
              twoStage0 =
                twoStageLoop_part000 inp 1 (Fin (D0 inp) * (1 + Fin (gShort inp))) []
          in case Array_from (horizonYears inp) (\<lambda>idx.
                    case (index constant idx, index constGrowth idx, index twoStage0 idx) of
                      (Some cd, Some cg, Some ts) \<Rightarrow>
                        Some \<lparr>year = idx + 1, constDiv = entry_value cd,
                              constGrow = entry_value cg, twoStage = entry_value ts\<rparr>
                    | _ \<Rightarrow> None) of
               Inl e \<Rightarrow> Inl e
             | Inr points \<Rightarrow>
                (case those points of
                   None \<Rightarrow> Inl TypeError
                 | Some data0 \<Rightarrow>
                    (let priceNoGrowth0 = Fin (D0 inp) / Fin (required inp);
                         priceGordon0 = (if js_lt (Fin (gConst inp)) (Fin (required inp))
                                         then (Fin (D0 inp) * (1 + Fin (gConst inp))) /
                                              (Fin (required inp) - Fin (gConst inp))
                                         else NaN)
                     in case Array_from (shortYears inp) (\<lambda>k.
                               (Fin (D0 inp) * Math_pow (1 + Fin (gShort inp)) (k + 1)) /
                               Math_pow (1 + Fin (required inp)) (k + 1)) of
                          Inl e \<Rightarrow> Inl e
                        | Inr terms \<Rightarrow>
                           (let cf1 = reduce_add terms;
                                D_T1 = Fin (D0 inp) *
                                       Math_pow (1 + Fin (gShort inp)) (shortYears inp) *
                                       (1 + Fin (gLong inp));
                                TV = (if js_lt (Fin (gLong inp)) (Fin (required inp))
                                      then D_T1 / (Fin (required inp) - Fin (gLong inp))
                                      else NaN);
                                pvTV = TV / Math_pow (1 + Fin (required inp)) (shortYears inp);
                                priceTwoStage0 = cf1 + pvTV
                            in Inr \<lparr>data = data0, priceNoGrowth = priceNoGrowth0,
                                     priceGordon = priceGordon0,
                                     priceTwoStage = priceTwoStage0\<rparr>)))))"

section \<open>The calculators over an explicit store\<close>

text \<open>
  The definitions above present each calculator as a function of its parameter alone. That
  presentation cannot express a dependence on state, so it is justified here rather than
  assumed. The calculators are translated a second time, statement by statement, over an explicit
  store. The store holds every array that exists when a calculator is called, one component for each
  type of element; an array is named by its position in its component. \<^verbatim>\<open>const xs = []\<close>
  appends an empty array to the component and yields its position, \<^verbatim>\<open>xs.push(v)\<close>
  replaces the array at that position by the array with \<open>v\<close> added, \<^verbatim>\<open>xs[idx]\<close>
  reads the array at that position, and \<^verbatim>\<open>Array.from\<close> appends the array it builds.
  A calculator takes the store in which it is called and returns its result with the store it leaves.
  The result names its array by position, as the object that the code returns holds a reference to
  the array; the numbers of the result are values.

  A calculator in this form may read any array of the store and may write to any of them.
\<close>

record store =
  flowArrays :: "CashFlowPoint list list"
  rowArrays :: "AmortizationRow list list"
  entryArrays :: "SeriesEntry list list"
  pointArrays :: "DividendSeriesPoint list list"
  numArrays :: "num list list"

text \<open>\<^verbatim>\<open>xs.push(x)\<close> for the array \<open>xs\<close> at position \<open>a\<close>.\<close>

definition push_at :: "nat \<Rightarrow> 'a \<Rightarrow> 'a list list \<Rightarrow> 'a list list" where
  "push_at a x s = s[a := s ! a @ [x]]"

text \<open>
  A store leaves another one unchanged when every array of the earlier store is in the later one,
  at its position and with its elements.
\<close>

definition unchanged :: "store \<Rightarrow> store \<Rightarrow> bool" where
  "unchanged h h' =
     (take (length (flowArrays h)) (flowArrays h') = flowArrays h \<and>
      take (length (rowArrays h)) (rowArrays h') = rowArrays h \<and>
      take (length (entryArrays h)) (entryArrays h') = entryArrays h \<and>
      take (length (pointArrays h)) (pointArrays h') = pointArrays h \<and>
      take (length (numArrays h)) (numArrays h') = numArrays h)"

subsection \<open>Bond cash flows\<close>

text \<open>The object that \<open>buildBondCashFlows\<close> returns: \<open>flows\<close> is a reference.\<close>

record BondResult_ref =
  flows_at :: nat
  price_val :: num
  c_val :: num
  r_val :: num
  n_val :: int

text \<open>What is read through a result in a store.\<close>

definition bondResult_of :: "BondResult_ref \<Rightarrow> store \<Rightarrow> BondResult" where
  "bondResult_of res h =
     \<lparr>flows = flowArrays h ! flows_at res, price = price_val res, bond_c = c_val res,
      bond_r = r_val res, bond_n = n_val res\<rparr>"

function bondFlowsLoop_st ::
  "BondInputs \<Rightarrow> int \<Rightarrow> num \<Rightarrow> int \<Rightarrow> nat \<Rightarrow> store \<Rightarrow> store" where
  "bondFlowsLoop_st inp n c t a h =
     (if t \<le> n then
        (let cf = (if t = n then c + Fin (face inp) else c) in
         bondFlowsLoop_st inp n c (t + 1) a
           (h\<lparr>flowArrays := push_at a
                 \<lparr>period = num_of_int t / num_of_int (freq inp), coupon = c,
                  other = (if t = n then Fin (face inp) else Fin 0), flow_total = cf\<rparr>
                 (flowArrays h)\<rparr>))
      else h)"
  by pat_completeness auto
termination
  by (relation "measure (\<lambda>(inp, n, c, t, a, h). nat (n + 1 - t))") auto

definition buildBondCashFlows_st :: "BondInputs \<Rightarrow> store \<Rightarrow> BondResult_ref \<times> store" where
  "buildBondCashFlows_st inp h =
     (let n = bond_years inp * freq inp;
          c = (Fin (couponRate inp) * Fin (face inp)) / num_of_int (freq inp);
          r = Fin (ytm inp) / num_of_int (freq inp);
          flows0 = length (flowArrays h);
          h1 = h\<lparr>flowArrays := flowArrays h @ [[]]\<rparr>;
          h2 = bondFlowsLoop_st inp n c 1 flows0 h1;
          terms = length (numArrays h2);
          h3 = h2\<lparr>numArrays := numArrays h2 @
                  [Array_from_length n (\<lambda>k. c / Math_pow (1 + r) (k + 1))]\<rparr>;
          pvCoupons = reduce_add (numArrays h3 ! terms);
          pvRedemption = Fin (face inp) / Math_pow (1 + r) n;
          price0 = pvCoupons + pvRedemption
      in (\<lparr>flows_at = flows0, price_val = price0, c_val = c, r_val = r, n_val = n\<rparr>, h3))"

text \<open>The result of a call in the store \<open>h\<close>, read in the store that the call leaves.\<close>

definition buildBondCashFlows_in :: "store \<Rightarrow> BondInputs \<Rightarrow> BondResult" where
  "buildBondCashFlows_in h inp =
     (let (res, h1) = buildBondCashFlows_st inp h in bondResult_of res h1)"

text \<open>
  \<^verbatim>\<open>const first = buildBondCashFlows(inp); const second = buildBondCashFlows(inp);\<close>
  and what the two results hold after the second call.
\<close>

definition buildBondCashFlows_twice :: "store \<Rightarrow> BondInputs \<Rightarrow> BondResult \<times> BondResult" where
  "buildBondCashFlows_twice h inp =
     (let (first, h1) = buildBondCashFlows_st inp h;
          (second, h2) = buildBondCashFlows_st inp h1
      in (bondResult_of first h2, bondResult_of second h2))"

subsection \<open>Mortgage schedule\<close>

record MortgageResult_ref =
  rows_at :: nat
  pmt_val :: num

definition mortgageResult_of :: "MortgageResult_ref \<Rightarrow> store \<Rightarrow> MortgageResult" where
  "mortgageResult_of res h = \<lparr>rows = rowArrays h ! rows_at res, pmt = pmt_val res\<rparr>"

function mortgageLoop_st ::
  "int \<Rightarrow> num \<Rightarrow> num \<Rightarrow> int \<Rightarrow> num \<Rightarrow> nat \<Rightarrow> store \<Rightarrow> store" where
  "mortgageLoop_st n i p t bal a h =
     (if t \<le> n then
        mortgageLoop_st n i p (t + 1) (snd (mortgageStep n i p t bal)) a
          (h\<lparr>rowArrays := push_at a (fst (mortgageStep n i p t bal)) (rowArrays h)\<rparr>)
      else h)"
  by pat_completeness auto
termination
  by (relation "measure (\<lambda>(n, i, p, t, bal, a, h). nat (n + 1 - t))") auto

definition buildMortgageSchedule_st ::
  "MortgageInputs \<Rightarrow> store \<Rightarrow> MortgageResult_ref \<times> store" where
  "buildMortgageSchedule_st inp h =
     (let m = 12;
          n = mortgage_years inp * m;
          i = Fin (rate inp) / num_of_int m;
          p = round2 ((i * Fin (principal inp)) / (1 - Math_pow (1 + i) (- n)));
          bal = Fin (principal inp);
          rows0 = length (rowArrays h);
          h1 = h\<lparr>rowArrays := rowArrays h @ [[]]\<rparr>;
          h2 = mortgageLoop_st n i p 1 bal rows0 h1
      in (\<lparr>rows_at = rows0, pmt_val = p\<rparr>, h2))"

definition buildMortgageSchedule_in :: "store \<Rightarrow> MortgageInputs \<Rightarrow> MortgageResult" where
  "buildMortgageSchedule_in h inp =
     (let (res, h1) = buildMortgageSchedule_st inp h in mortgageResult_of res h1)"

definition buildMortgageSchedule_twice ::
  "store \<Rightarrow> MortgageInputs \<Rightarrow> MortgageResult \<times> MortgageResult" where
  "buildMortgageSchedule_twice h inp =
     (let (first, h1) = buildMortgageSchedule_st inp h;
          (second, h2) = buildMortgageSchedule_st inp h1
      in (mortgageResult_of first h2, mortgageResult_of second h2))"

subsection \<open>Dividend series\<close>

record DividendResult_ref =
  data_at :: nat
  priceNoGrowth_val :: num
  priceGordon_val :: num
  priceTwoStage_val :: num

definition dividendResult_of :: "DividendResult_ref \<Rightarrow> store \<Rightarrow> DividendResult" where
  "dividendResult_of res h =
     \<lparr>data = pointArrays h ! data_at res, priceNoGrowth = priceNoGrowth_val res,
      priceGordon = priceGordon_val res, priceTwoStage = priceTwoStage_val res\<rparr>"

function constGrowthLoop_st ::
  "DividendInputs \<Rightarrow> int \<Rightarrow> num \<Rightarrow> nat \<Rightarrow> store \<Rightarrow> store" where
  "constGrowthLoop_st inp t Dt a h =
     (if t \<le> horizonYears inp then
        (let Dt' = (if 1 < t then Dt * (1 + Fin (gConst inp)) else Dt) in
         constGrowthLoop_st inp (t + 1) Dt' a
           (h\<lparr>entryArrays := push_at a \<lparr>entry_year = t, entry_value = Dt'\<rparr> (entryArrays h)\<rparr>))
      else h)"
  by pat_completeness auto
termination
  by (relation "measure (\<lambda>(inp, t, Dt, a, h). nat (horizonYears inp + 1 - t))") auto

function twoStageLoop_st ::
  "DividendInputs \<Rightarrow> int \<Rightarrow> num \<Rightarrow> nat \<Rightarrow> store \<Rightarrow> store" where
  "twoStageLoop_st inp t Dt a h =
     (if t \<le> horizonYears inp then
        (let Dt' = (if 1 < t
                    then (let g = (if t \<le> shortYears inp then Fin (gShort inp) else Fin (gLong inp))
                          in Dt * (1 + g))
                    else Dt) in
         twoStageLoop_st inp (t + 1) Dt' a
           (h\<lparr>entryArrays := push_at a \<lparr>entry_year = t, entry_value = Dt'\<rparr> (entryArrays h)\<rparr>))
      else h)"
  by pat_completeness auto
termination
  by (relation "measure (\<lambda>(inp, t, Dt, a, h). nat (horizonYears inp + 1 - t))") auto

text \<open>
  A call that throws returns the error, with the store as it is when the error is thrown: the arrays
  allocated until then stay in it.
\<close>

definition buildDividendSeries_st ::
  "DividendInputs \<Rightarrow> store \<Rightarrow> (error + DividendResult_ref) \<times> store" where
  "buildDividendSeries_st inp h =
     (let constGrowth = length (entryArrays h);
          h1 = h\<lparr>entryArrays := entryArrays h @ [[]]\<rparr>;
          h2 = constGrowthLoop_st inp 1 (Fin (D0 inp) * (1 + Fin (gConst inp))) constGrowth h1;
          twoStage0 = length (entryArrays h2);
          h3 = h2\<lparr>entryArrays := entryArrays h2 @ [[]]\<rparr>;
          h4 = twoStageLoop_st inp 1 (Fin (D0 inp) * (1 + Fin (gShort inp))) twoStage0 h3
      in case Array_from (horizonYears inp) (\<lambda>idx.
                case (index (entryArrays h4 ! constGrowth) idx,
                      index (entryArrays h4 ! twoStage0) idx) of
                  (Some cg, Some ts) \<Rightarrow>
                    Some \<lparr>year = idx + 1, constDiv = Fin (D0 inp),
                          constGrow = entry_value cg, twoStage = entry_value ts\<rparr>
                | _ \<Rightarrow> None) of
           Inl e \<Rightarrow> (Inl e, h4)
         | Inr points \<Rightarrow>
            (case those points of
               None \<Rightarrow> (Inl TypeError, h4)
             | Some data0 \<Rightarrow>
                (let data1 = length (pointArrays h4);
                     h5 = h4\<lparr>pointArrays := pointArrays h4 @ [data0]\<rparr>;
                     priceNoGrowth0 = Fin (D0 inp) / Fin (required inp);
                     priceGordon0 = (if js_lt (Fin (gConst inp)) (Fin (required inp))
                                     then (Fin (D0 inp) * (1 + Fin (gConst inp))) /
                                          (Fin (required inp) - Fin (gConst inp))
                                     else NaN)
                 in case Array_from (shortYears inp) (\<lambda>k.
                           (Fin (D0 inp) * Math_pow (1 + Fin (gShort inp)) (k + 1)) /
                           Math_pow (1 + Fin (required inp)) (k + 1)) of
                      Inl e \<Rightarrow> (Inl e, h5)
                    | Inr terms \<Rightarrow>
                       (let terms0 = length (numArrays h5);
                            h6 = h5\<lparr>numArrays := numArrays h5 @ [terms]\<rparr>;
                            cf1 = reduce_add (numArrays h6 ! terms0);
                            D_T1 = Fin (D0 inp) *
                                   Math_pow (1 + Fin (gShort inp)) (shortYears inp) *
                                   (1 + Fin (gLong inp));
                            TV = (if js_lt (Fin (gLong inp)) (Fin (required inp))
                                  then D_T1 / (Fin (required inp) - Fin (gLong inp))
                                  else NaN);
                            pvTV = TV / Math_pow (1 + Fin (required inp)) (shortYears inp);
                            priceTwoStage0 = cf1 + pvTV
                        in (Inr \<lparr>data_at = data1, priceNoGrowth_val = priceNoGrowth0,
                                  priceGordon_val = priceGordon0,
                                  priceTwoStage_val = priceTwoStage0\<rparr>, h6)))))"

definition buildDividendSeries_in :: "store \<Rightarrow> DividendInputs \<Rightarrow> error + DividendResult" where
  "buildDividendSeries_in h inp =
     (let (res, h1) = buildDividendSeries_st inp h
      in map_sum id (\<lambda>r. dividendResult_of r h1) res)"

text \<open>Two calls in a row, each one with its error caught.\<close>

definition buildDividendSeries_twice ::
  "store \<Rightarrow> DividendInputs \<Rightarrow> (error + DividendResult) \<times> (error + DividendResult)" where
  "buildDividendSeries_twice h inp =
     (let (first, h1) = buildDividendSeries_st inp h;
          (second, h2) = buildDividendSeries_st inp h1
      in (map_sum id (\<lambda>r. dividendResult_of r h2) first,
          map_sum id (\<lambda>r. dividendResult_of r h2) second))"

section \<open>Auxiliary definitions for the statements\<close>

text \<open>The cash-flow point that the loop of \<open>buildBondCashFlows\<close> pushes at period \<open>t\<close>.\<close>

definition bondFlowAt :: "BondInputs \<Rightarrow> int \<Rightarrow> num \<Rightarrow> int \<Rightarrow> CashFlowPoint" where
  "bondFlowAt inp n c t =
     \<lparr>period = num_of_int t / num_of_int (freq inp), coupon = c,
      other = (if t = n then Fin (face inp) else Fin 0),
      flow_total = (if t = n then c + Fin (face inp) else c)\<rparr>"

text \<open>The default values of the parameters of \<open>buildBondCashFlows\<close>.\<close>

definition defaultBondInputs :: BondInputs where
  "defaultBondInputs =
     \<lparr>face = 100, bond_years = 5, couponRate = 86 / 1000, ytm = 65 / 1000, freq = 2\<rparr>"

text \<open>The default values of the parameters of \<open>buildMortgageSchedule\<close>.\<close>

definition defaultMortgageInputs :: MortgageInputs where
  "defaultMortgageInputs = \<lparr>principal = 800000, rate = 6 / 100, mortgage_years = 30\<rparr>"

text \<open>
  The point of \<^verbatim>\<open>data\<close> that \<open>buildDividendSeries\<close> builds at index \<open>idx\<close> from the two
  intermediate arrays, when the index is in range.
\<close>

definition dividendPoint ::
  "DividendInputs \<Rightarrow> SeriesEntry list \<Rightarrow> SeriesEntry list \<Rightarrow> int \<Rightarrow> DividendSeriesPoint" where
  "dividendPoint inp cg ts idx =
     \<lparr>year = idx + 1, constDiv = Fin (D0 inp),
      constGrow = entry_value (cg ! nat idx), twoStage = entry_value (ts ! nat idx)\<rparr>"

text \<open>The default values of the parameters of \<open>buildDividendSeries\<close>.\<close>

definition defaultDividendInputs :: DividendInputs where
  "defaultDividendInputs =
     \<lparr>D0 = 5, required = 1 / 10, gConst = 5 / 100, gShort = 5 / 100, gLong = 3 / 100,
      shortYears = 5, horizonYears = 10\<rparr>"

text \<open>A finite and positive number.\<close>

definition finitePositive :: "num \<Rightarrow> bool" where
  "finitePositive x = (case x of Fin a \<Rightarrow> 0 < a | _ \<Rightarrow> False)"

text \<open>A number that is zero, positive or \<open>+\<infinity>\<close>.\<close>

definition notNegative :: "num \<Rightarrow> bool" where
  "notNegative x = (case x of Fin a \<Rightarrow> 0 \<le> a | PInf \<Rightarrow> True | _ \<Rightarrow> False)"

section \<open>Arithmetic of numbers\<close>

lemma num_simps [simp]:
  "(1::num) = Fin 1"
  "(0::num) = Fin 0"
  "Fin a - Fin b = Fin (a - b)"
  "num_of_int k = Fin (of_int k)"
  by (simp_all add: one_num_def zero_num_def minus_num_def num_of_int_def)

lemma add_Fin_0 [simp]: "a + Fin 0 = a" "Fin 0 + a = a"
  by (cases a; simp)+







declare bondFlowsLoop.simps [simp del]
declare mortgageLoop.simps [simp del]
declare constGrowthLoop.simps [simp del] twoStageLoop.simps [simp del]

section \<open>Bond cash flows: price and flows\<close>

lemma bondFlowsLoop_map:
  "bondFlowsLoop inp n c t fl = fl @ map (bondFlowAt inp n c) [t..n]"
proof (induction inp n c t fl rule: bondFlowsLoop.induct)
  case (1 inp n c t fl)
  show ?case
  proof (cases "t \<le> n")
    case True
    then have "[t..n] = t # [t + 1..n]"
      by (simp add: upto_rec1)
    with True 1 show ?thesis
      by (subst bondFlowsLoop.simps) (simp add: bondFlowAt_def Let_def)
  next
    case False
    then show ?thesis
      by (subst bondFlowsLoop.simps) simp
  qed
qed

lemma bond_flows_eq:
  "flows (buildBondCashFlows inp) =
     map (bondFlowAt inp (bond_years inp * freq inp)
            (Fin (couponRate inp) * Fin (face inp) / num_of_int (freq inp)))
       [1..bond_years inp * freq inp]"
  by (simp add: buildBondCashFlows_def Let_def bondFlowsLoop_map del: num_simps)






section \<open>Mortgage schedule: the number of rows\<close>



section \<open>Dividend series: when it returns, and its prices\<close>

lemma constGrowthLoop_length:
  "length (constGrowthLoop inp t Dt acc) = length acc + nat (horizonYears inp + 1 - t)"
proof (induction inp t Dt acc rule: constGrowthLoop.induct)
  case (1 inp t Dt acc)
  show ?case
  proof (cases "t \<le> horizonYears inp")
    case True
    with 1 show ?thesis
      by (subst constGrowthLoop.simps) (simp add: Let_def nat_diff_distrib)
  next
    case False
    then show ?thesis
      by (subst constGrowthLoop.simps) simp
  qed
qed

lemma twoStageLoop_length:
  "length (twoStageLoop inp t Dt acc) = length acc + nat (horizonYears inp + 1 - t)"
proof (induction inp t Dt acc rule: twoStageLoop.induct)
  case (1 inp t Dt acc)
  show ?case
  proof (cases "t \<le> horizonYears inp")
    case True
    with 1 show ?thesis
      by (subst twoStageLoop.simps) (simp add: Let_def nat_diff_distrib)
  next
    case False
    then show ?thesis
      by (subst twoStageLoop.simps) simp
  qed
qed

lemma those_map_Some:
  "(\<And>x. x \<in> set xs \<Longrightarrow> f x = Some (g x)) \<Longrightarrow> those (map f xs) = Some (map g xs)"
  by (induction xs) simp_all

lemma index_Some: "0 \<le> idx \<Longrightarrow> nat idx < length xs \<Longrightarrow> index xs idx = Some (xs ! nat idx)"
  by (simp add: index_def)

lemma dividend_data_Some:
  assumes "length cg = nat h" and "length ts = nat h"
  shows "those (Array_from_length h (\<lambda>idx.
            case (index cg idx, index ts idx) of
              (Some c, Some s) \<Rightarrow>
                Some \<lparr>year = idx + 1, constDiv = Fin (D0 inp),
                      constGrow = entry_value c, twoStage = entry_value s\<rparr>
            | _ \<Rightarrow> None)) =
         Some (map (dividendPoint inp cg ts) [0..h - 1])"
  unfolding Array_from_length_def
  by (rule those_map_Some) (use assms in \<open>simp add: index_Some dividendPoint_def\<close>)

text \<open>The result when both lengths are array lengths, and the error otherwise.\<close>

lemma buildDividendSeries_returns:
  assumes "horizonYears inp < 2 ^ 32" and "shortYears inp < 2 ^ 32"
  shows "buildDividendSeries inp =
     Inr \<lparr>data = map (dividendPoint inp
                (constGrowthLoop inp 1 (Fin (D0 inp) * (1 + Fin (gConst inp))) [])
                (twoStageLoop inp 1 (Fin (D0 inp) * (1 + Fin (gShort inp))) []))
              [0..horizonYears inp - 1],
          priceNoGrowth = Fin (D0 inp) / Fin (required inp),
          priceGordon = (if js_lt (Fin (gConst inp)) (Fin (required inp))
                         then (Fin (D0 inp) * (1 + Fin (gConst inp))) /
                              (Fin (required inp) - Fin (gConst inp))
                         else NaN),
          priceTwoStage =
            reduce_add (Array_from_length (shortYears inp) (\<lambda>k.
              (Fin (D0 inp) * Math_pow (1 + Fin (gShort inp)) (k + 1)) /
              Math_pow (1 + Fin (required inp)) (k + 1))) +
            (if js_lt (Fin (gLong inp)) (Fin (required inp))
             then Fin (D0 inp) * Math_pow (1 + Fin (gShort inp)) (shortYears inp) *
                  (1 + Fin (gLong inp)) / (Fin (required inp) - Fin (gLong inp))
             else NaN) /
            Math_pow (1 + Fin (required inp)) (shortYears inp)\<rparr>"
proof -
  have cg: "length (constGrowthLoop inp 1 (Fin (D0 inp) * (1 + Fin (gConst inp))) []) =
      nat (horizonYears inp)"
    by (simp add: constGrowthLoop_length)
  have ts: "length (twoStageLoop inp 1 (Fin (D0 inp) * (1 + Fin (gShort inp))) []) =
      nat (horizonYears inp)"
    by (simp add: twoStageLoop_length)
  from assms have h: "\<not> (2 :: int) ^ 32 \<le> horizonYears inp" and s: "\<not> (2 :: int) ^ 32 \<le> shortYears inp"
    by simp_all
  show ?thesis
    unfolding buildDividendSeries_def Let_def Array_from_def
    by (simp only: h s if_False sum.case dividend_data_Some [OF cg ts] option.case)
qed

lemma buildDividendSeries_throws:
  assumes "2 ^ 32 \<le> horizonYears inp \<or> 2 ^ 32 \<le> shortYears inp"
  shows "buildDividendSeries inp = Inl RangeError"
proof (cases "2 ^ 32 \<le> horizonYears inp")
  case True
  then show ?thesis
    unfolding buildDividendSeries_def Let_def Array_from_def
    by (simp only: if_True sum.case)
next
  case False
  with assms have s: "2 ^ 32 \<le> shortYears inp"
    by simp
  have cg: "length (constGrowthLoop inp 1 (Fin (D0 inp) * (1 + Fin (gConst inp))) []) =
      nat (horizonYears inp)"
    by (simp add: constGrowthLoop_length)
  have ts: "length (twoStageLoop inp 1 (Fin (D0 inp) * (1 + Fin (gShort inp))) []) =
      nat (horizonYears inp)"
    by (simp add: twoStageLoop_length)
  show ?thesis
    unfolding buildDividendSeries_def Let_def Array_from_def
    by (simp only: False s if_False if_True sum.case dividend_data_Some [OF cg ts] option.case)
qed

lemma add_NaN [simp]: "x + NaN = NaN"
  by (cases x) simp_all

text \<open>
  C3, as the code has it. For a positive required return, when the call returns (both
  \<open>shortYears\<close> and \<open>horizonYears\<close> below \<open>2^32\<close>): if \<open>gConst \<ge> required\<close> then \<open>priceGordon\<close>
  is NaN; if \<open>gConst < required\<close> then it is the quotient of \<open>D0 * (1 + gConst)\<close> by
  \<open>required - gConst\<close>, which is not NaN, is 0 when \<open>D0 = 0\<close>, and is not negative when
  \<open>D0 \<ge> 0\<close> and \<open>gConst \<ge> -1\<close>.
\<close>

theorem buildDividendSeries_priceGordon:
  assumes "0 < required inp" and "shortYears inp < 2 ^ 32" and "horizonYears inp < 2 ^ 32"
  shows "\<exists>res. buildDividendSeries inp = Inr res
       \<and> (required inp \<le> gConst inp \<longrightarrow> priceGordon res = NaN)
       \<and> (gConst inp < required inp \<longrightarrow>
            priceGordon res =
              (Fin (D0 inp) * (1 + Fin (gConst inp))) / (Fin (required inp) - Fin (gConst inp))
          \<and> priceGordon res \<noteq> NaN
          \<and> (D0 inp = 0 \<longrightarrow> priceGordon res = Fin 0)
          \<and> (0 \<le> D0 inp \<and> - 1 \<le> gConst inp \<longrightarrow> notNegative (priceGordon res)))"
  unfolding buildDividendSeries_returns [OF assms(3,2)]
  by (simp add: notNegative_def)

theorem buildDividendSeries_priceGordon_witness:
  "(\<exists>res. buildDividendSeries defaultDividendInputs = Inr res
       \<and> priceGordon res = Fin 105 \<and> notNegative (priceGordon res))
   \<and> (\<exists>res. buildDividendSeries (defaultDividendInputs\<lparr>gConst := 1 / 10\<rparr>) = Inr res
       \<and> priceGordon res = NaN)"
proof
  show "\<exists>res. buildDividendSeries defaultDividendInputs = Inr res
       \<and> priceGordon res = Fin 105 \<and> notNegative (priceGordon res)"
    using buildDividendSeries_priceGordon [of defaultDividendInputs]
    by (simp add: defaultDividendInputs_def) (auto simp: notNegative_def)
  show "\<exists>res. buildDividendSeries (defaultDividendInputs\<lparr>gConst := 1 / 10\<rparr>) = Inr res
       \<and> priceGordon res = NaN"
    using buildDividendSeries_priceGordon [of "defaultDividendInputs\<lparr>gConst := 1 / 10\<rparr>"]
    by (simp add: defaultDividendInputs_def)
qed

text \<open>
  With \<open>D0 = 0\<close>, which the data model allows, and \<open>gConst < required\<close>, \<open>priceGordon\<close> is
  0: finite but not positive.
\<close>

theorem buildDividendSeries_priceGordon_not_positive:
  "0 < required (defaultDividendInputs\<lparr>D0 := 0\<rparr>)
   \<and> gConst (defaultDividendInputs\<lparr>D0 := 0\<rparr>) < required (defaultDividendInputs\<lparr>D0 := 0\<rparr>)
   \<and> map_sum id priceGordon (buildDividendSeries (defaultDividendInputs\<lparr>D0 := 0\<rparr>)) = Inr (Fin 0)
   \<and> \<not> finitePositive (Fin 0)"
proof -
  have h: "horizonYears (defaultDividendInputs\<lparr>D0 := 0\<rparr>) < 2 ^ 32"
    and s: "shortYears (defaultDividendInputs\<lparr>D0 := 0\<rparr>) < 2 ^ 32"
    by (simp_all add: defaultDividendInputs_def)
  show ?thesis
    unfolding buildDividendSeries_returns [OF h s]
    by (simp add: defaultDividendInputs_def finitePositive_def)
qed




section \<open>Degenerate inputs\<close>

lemma Math_pow_0: "Math_pow x 0 = Fin 1"
  by (cases x) simp_all

lemma round2_NaN: "round2 NaN = NaN"
  by (simp add: round2_def Number_EPSILON_def)

text \<open>
  C6, as the code has it. No input is validated. With \<open>freq = 0\<close>, \<open>buildBondCashFlows\<close>
  returns a per-period coupon and a per-period rate that are not finite (NaN or an
  infinity), no flows, and the face value as price. With \<open>years = 0\<close> and a non-zero
  \<open>freq\<close> every field of its result is an ordinary number: no flows, the face value as
  price, and the usual per-period coupon and rate. With \<open>rate = 0\<close>,
  \<open>buildMortgageSchedule\<close> divides zero by zero and returns NaN as the payment.
\<close>

theorem degenerate_inputs:
  "(freq b = 0 \<longrightarrow>
      \<not> isFinite (bond_c (buildBondCashFlows b)) \<and> \<not> isFinite (bond_r (buildBondCashFlows b))
    \<and> price (buildBondCashFlows b) = Fin (face b) \<and> flows (buildBondCashFlows b) = [])
   \<and> (bond_years b' = 0 \<and> freq b' \<noteq> 0 \<longrightarrow>
        buildBondCashFlows b' =
          \<lparr>flows = [], price = Fin (face b'),
           bond_c = Fin (couponRate b' * face b' / of_int (freq b')),
           bond_r = Fin (ytm b' / of_int (freq b')), bond_n = 0\<rparr>)
   \<and> (rate m = 0 \<longrightarrow> pmt (buildMortgageSchedule m) = NaN)"
proof (intro conjI impI)
  assume f: "freq b = 0"
  show "\<not> isFinite (bond_c (buildBondCashFlows b))"
    by (simp add: buildBondCashFlows_def Let_def f)
  show "\<not> isFinite (bond_r (buildBondCashFlows b))"
    by (simp add: buildBondCashFlows_def Let_def f)
  show "flows (buildBondCashFlows b) = []"
    by (simp add: bond_flows_eq f)
  show "price (buildBondCashFlows b) = Fin (face b)"
    by (simp add: buildBondCashFlows_def Let_def f Math_pow_0 reduce_add_def
        Array_from_length_def del: Math_pow.simps)
next
  assume "bond_years b' = 0 \<and> freq b' \<noteq> 0"
  then show "buildBondCashFlows b' =
          \<lparr>flows = [], price = Fin (face b'),
           bond_c = Fin (couponRate b' * face b' / of_int (freq b')),
           bond_r = Fin (ytm b' / of_int (freq b')), bond_n = 0\<rparr>"
    using bond_flows_eq [of b']
    by (simp add: buildBondCashFlows_def Let_def reduce_add_def Array_from_length_def)
next
  assume "rate m = 0"
  then show "pmt (buildMortgageSchedule m) = NaN"
    by (simp add: buildMortgageSchedule_def Let_def round2_NaN)
qed

theorem degenerate_inputs_witness:
  "\<not> isFinite (bond_c (buildBondCashFlows (defaultBondInputs\<lparr>freq := 0\<rparr>)))
   \<and> price (buildBondCashFlows (defaultBondInputs\<lparr>freq := 0\<rparr>)) = Fin 100
   \<and> price (buildBondCashFlows (defaultBondInputs\<lparr>bond_years := 0\<rparr>)) = Fin 100
   \<and> bond_c (buildBondCashFlows (defaultBondInputs\<lparr>bond_years := 0\<rparr>)) = Fin (43 / 10)
   \<and> pmt (buildMortgageSchedule (defaultMortgageInputs\<lparr>rate := 0\<rparr>)) = NaN"
  using degenerate_inputs [of "defaultBondInputs\<lparr>freq := 0\<rparr>"
      "defaultBondInputs\<lparr>bond_years := 0\<rparr>" "defaultMortgageInputs\<lparr>rate := 0\<rparr>"]
  by (simp add: defaultBondInputs_def defaultMortgageInputs_def)

text \<open>
  With \<open>years = 0\<close> and the other fields at their defaults, nothing in the result of
  \<open>buildBondCashFlows\<close> is NaN or infinite.
\<close>

theorem buildBondCashFlows_years_0_finite:
  "buildBondCashFlows \<lparr>face = 100, bond_years = 0, couponRate = 86 / 1000, ytm = 65 / 1000,
                       freq = 2\<rparr> =
     \<lparr>flows = [], price = Fin 100, bond_c = Fin (43 / 10), bond_r = Fin (13 / 400), bond_n = 0\<rparr>
   \<and> isFinite (Fin 100) \<and> isFinite (Fin (43 / 10)) \<and> isFinite (Fin (13 / 400))"
  by (simp add: buildBondCashFlows_def Let_def reduce_add_def Array_from_length_def
      bondFlowsLoop.simps)

section \<open>Lengths of the result sequences\<close>




section \<open>The two versions of the calculators\<close>

lemma bondFlowsLoop_part000_eq:
  "bondFlowsLoop_part000 inp n c t fl = bondFlowsLoop inp n c t fl"
proof (induction inp n c t fl rule: bondFlowsLoop.induct)
  case (1 inp n c t fl)
  show ?case
  proof (cases "t \<le> n")
    case True
    with 1 show ?thesis
      by (subst bondFlowsLoop.simps, subst bondFlowsLoop_part000.simps)
        (simp add: Let_def del: bondFlowsLoop_part000.simps)
  next
    case False
    then show ?thesis
      by (subst bondFlowsLoop.simps, subst bondFlowsLoop_part000.simps)
        (simp del: bondFlowsLoop_part000.simps)
  qed
qed

lemma constGrowthLoop_part000_eq:
  "constGrowthLoop_part000 inp t Dt acc = constGrowthLoop inp t Dt acc"
proof (induction inp t Dt acc rule: constGrowthLoop.induct)
  case (1 inp t Dt acc)
  show ?case
  proof (cases "t \<le> horizonYears inp")
    case True
    with 1 show ?thesis
      by (subst constGrowthLoop.simps, subst constGrowthLoop_part000.simps)
        (simp add: Let_def del: constGrowthLoop_part000.simps)
  next
    case False
    then show ?thesis
      by (subst constGrowthLoop.simps, subst constGrowthLoop_part000.simps)
        (simp del: constGrowthLoop_part000.simps)
  qed
qed

lemma twoStageLoop_part000_eq:
  "twoStageLoop_part000 inp t Dt acc = twoStageLoop inp t Dt acc"
proof (induction inp t Dt acc rule: twoStageLoop.induct)
  case (1 inp t Dt acc)
  show ?case
  proof (cases "t \<le> horizonYears inp")
    case True
    with 1 show ?thesis
      by (subst twoStageLoop.simps, subst twoStageLoop_part000.simps)
        (simp add: Let_def del: twoStageLoop_part000.simps)
  next
    case False
    then show ?thesis
      by (subst twoStageLoop.simps, subst twoStageLoop_part000.simps)
        (simp del: twoStageLoop_part000.simps)
  qed
qed

lemma index_map_upto:
  "0 \<le> idx \<Longrightarrow> idx \<le> h - 1 \<Longrightarrow> index (map f [0..h - 1]) idx = Some (f idx)"
  by (simp add: index_def)

lemma dividend_data_Some_part000:
  assumes "length cg = nat h" and "length ts = nat h"
  shows "those (Array_from_length h (\<lambda>idx.
            case (index (Array_from_length h
                          (\<lambda>k. \<lparr>entry_year = k + 1, entry_value = Fin (D0 inp)\<rparr>)) idx,
                  index cg idx, index ts idx) of
              (Some cd, Some c, Some s) \<Rightarrow>
                Some \<lparr>year = idx + 1, constDiv = entry_value cd,
                      constGrow = entry_value c, twoStage = entry_value s\<rparr>
            | _ \<Rightarrow> None)) =
         Some (map (dividendPoint inp cg ts) [0..h - 1])"
  unfolding Array_from_length_def
  by (rule those_map_Some)
    (use assms in \<open>simp add: index_Some index_map_upto dividendPoint_def\<close>)

lemma buildDividendSeries_part000_eq:
  "buildDividendSeries_part000 inp = buildDividendSeries inp"
proof (cases "2 ^ 32 \<le> horizonYears inp")
  case True
  then have "buildDividendSeries inp = Inl RangeError"
    by (intro buildDividendSeries_throws) simp
  moreover from True have "buildDividendSeries_part000 inp = Inl RangeError"
    unfolding buildDividendSeries_part000_def Array_from_def
    by (simp only: if_True sum.case)
  ultimately show ?thesis
    by simp
next
  case h: False
  have cg: "length (constGrowthLoop inp 1 (Fin (D0 inp) * (1 + Fin (gConst inp))) []) =
      nat (horizonYears inp)"
    by (simp add: constGrowthLoop_length)
  have ts: "length (twoStageLoop inp 1 (Fin (D0 inp) * (1 + Fin (gShort inp))) []) =
      nat (horizonYears inp)"
    by (simp add: twoStageLoop_length)
  show ?thesis
  proof (cases "2 ^ 32 \<le> shortYears inp")
    case True
    then have "buildDividendSeries inp = Inl RangeError"
      by (intro buildDividendSeries_throws) simp
    moreover have "buildDividendSeries_part000 inp = Inl RangeError"
      unfolding buildDividendSeries_part000_def Let_def Array_from_def
        constGrowthLoop_part000_eq twoStageLoop_part000_eq
      by (simp only: h True if_False if_True sum.case
          dividend_data_Some_part000 [OF cg ts] option.case)
    ultimately show ?thesis
      by simp
  next
    case s: False
    from h s have hh: "horizonYears inp < 2 ^ 32" and ss: "shortYears inp < 2 ^ 32"
      by simp_all
    show ?thesis
      unfolding buildDividendSeries_returns [OF hh ss]
        buildDividendSeries_part000_def Let_def Array_from_def
        constGrowthLoop_part000_eq twoStageLoop_part000_eq
      by (simp only: h s if_False sum.case dividend_data_Some_part000 [OF cg ts] option.case)
  qed
qed

lemma buildBondCashFlows_part000_eq:
  "buildBondCashFlows_part000 b = buildBondCashFlows b"
  by (simp only: buildBondCashFlows_part000_def buildBondCashFlows_def bondFlowsLoop_part000_eq)

text \<open>
  C9. On every input, \<open>buildDividendSeries\<close> of \<^verbatim>\<open>src/unnamed/part_000\<close> returns what
  \<open>buildDividendSeries\<close> of \<^verbatim>\<open>src/src/App.jsx\<close> returns, and so do the two versions of
  \<open>buildBondCashFlows\<close>.
\<close>

theorem part000_agrees:
  "buildDividendSeries_part000 d = buildDividendSeries d
   \<and> buildBondCashFlows_part000 b = buildBondCashFlows b"
  by (simp only: buildDividendSeries_part000_eq buildBondCashFlows_part000_eq)


section \<open>The calculators and the store\<close>

lemma bondFlowsLoop_st_eq:
  "a < length (flowArrays h) \<Longrightarrow>
   bondFlowsLoop_st inp n c t a h =
     h\<lparr>flowArrays := (flowArrays h)[a := bondFlowsLoop inp n c t (flowArrays h ! a)]\<rparr>"
proof (induction inp n c t a h rule: bondFlowsLoop_st.induct)
  case (1 inp n c t a h)
  show ?case
  proof (cases "t \<le> n")
    case True
    with 1 show ?thesis
      by (subst bondFlowsLoop_st.simps, subst bondFlowsLoop.simps)
        (simp add: Let_def push_at_def del: bondFlowsLoop_st.simps)
  next
    case False
    then show ?thesis
      by (subst bondFlowsLoop_st.simps, subst bondFlowsLoop.simps)
        (simp del: bondFlowsLoop_st.simps)
  qed
qed

lemma buildBondCashFlows_st_eq:
  "buildBondCashFlows_st inp h =
     (\<lparr>flows_at = length (flowArrays h), price_val = price (buildBondCashFlows inp),
       c_val = bond_c (buildBondCashFlows inp), r_val = bond_r (buildBondCashFlows inp),
       n_val = bond_n (buildBondCashFlows inp)\<rparr>,
      h\<lparr>flowArrays := flowArrays h @ [flows (buildBondCashFlows inp)],
        numArrays := numArrays h @
          [Array_from_length (bond_years inp * freq inp)
             (\<lambda>k. bond_c (buildBondCashFlows inp) /
                  Math_pow (1 + bond_r (buildBondCashFlows inp)) (k + 1))]\<rparr>)"
  by (simp add: buildBondCashFlows_st_def buildBondCashFlows_def Let_def
      bondFlowsLoop_st_eq nth_append del: num_simps bondFlowsLoop_st.simps)

lemma buildBondCashFlows_in_eq: "buildBondCashFlows_in h inp = buildBondCashFlows inp"
  by (simp add: buildBondCashFlows_in_def buildBondCashFlows_st_eq bondResult_of_def
      del: num_simps)

lemma buildBondCashFlows_twice_eq:
  "buildBondCashFlows_twice h inp = (buildBondCashFlows inp, buildBondCashFlows inp)"
  by (simp add: buildBondCashFlows_twice_def buildBondCashFlows_st_eq bondResult_of_def
      nth_append del: num_simps)

lemma mortgageLoop_st_eq:
  "a < length (rowArrays h) \<Longrightarrow>
   mortgageLoop_st n i p t bal a h =
     h\<lparr>rowArrays := (rowArrays h)[a := mortgageLoop n i p t bal (rowArrays h ! a)]\<rparr>"
proof (induction n i p t bal a h rule: mortgageLoop_st.induct)
  case (1 n i p t bal a h)
  show ?case
  proof (cases "t \<le> n")
    case True
    with 1 show ?thesis
      by (subst mortgageLoop_st.simps, subst mortgageLoop.simps)
        (simp add: push_at_def del: mortgageLoop_st.simps)
  next
    case False
    then show ?thesis
      by (subst mortgageLoop_st.simps, subst mortgageLoop.simps)
        (simp del: mortgageLoop_st.simps)
  qed
qed

lemma buildMortgageSchedule_st_eq:
  "buildMortgageSchedule_st inp h =
     (\<lparr>rows_at = length (rowArrays h), pmt_val = pmt (buildMortgageSchedule inp)\<rparr>,
      h\<lparr>rowArrays := rowArrays h @ [rows (buildMortgageSchedule inp)]\<rparr>)"
  by (simp add: buildMortgageSchedule_st_def buildMortgageSchedule_def Let_def
      mortgageLoop_st_eq nth_append del: num_simps mortgageLoop_st.simps)

lemma buildMortgageSchedule_in_eq:
  "buildMortgageSchedule_in h inp = buildMortgageSchedule inp"
  by (simp add: buildMortgageSchedule_in_def buildMortgageSchedule_st_eq mortgageResult_of_def
      del: num_simps)

lemma buildMortgageSchedule_twice_eq:
  "buildMortgageSchedule_twice h inp = (buildMortgageSchedule inp, buildMortgageSchedule inp)"
  by (simp add: buildMortgageSchedule_twice_def buildMortgageSchedule_st_eq
      mortgageResult_of_def nth_append del: num_simps)

lemma constGrowthLoop_st_eq:
  "a < length (entryArrays h) \<Longrightarrow>
   constGrowthLoop_st inp t Dt a h =
     h\<lparr>entryArrays := (entryArrays h)[a := constGrowthLoop inp t Dt (entryArrays h ! a)]\<rparr>"
proof (induction inp t Dt a h rule: constGrowthLoop_st.induct)
  case (1 inp t Dt a h)
  show ?case
  proof (cases "t \<le> horizonYears inp")
    case True
    with 1 show ?thesis
      by (subst constGrowthLoop_st.simps, subst constGrowthLoop.simps)
        (simp add: Let_def push_at_def del: constGrowthLoop_st.simps)
  next
    case False
    then show ?thesis
      by (subst constGrowthLoop_st.simps, subst constGrowthLoop.simps)
        (simp del: constGrowthLoop_st.simps)
  qed
qed

lemma twoStageLoop_st_eq:
  "a < length (entryArrays h) \<Longrightarrow>
   twoStageLoop_st inp t Dt a h =
     h\<lparr>entryArrays := (entryArrays h)[a := twoStageLoop inp t Dt (entryArrays h ! a)]\<rparr>"
proof (induction inp t Dt a h rule: twoStageLoop_st.induct)
  case (1 inp t Dt a h)
  show ?case
  proof (cases "t \<le> horizonYears inp")
    case True
    with 1 show ?thesis
      by (subst twoStageLoop_st.simps, subst twoStageLoop.simps)
        (simp add: Let_def push_at_def del: twoStageLoop_st.simps)
  next
    case False
    then show ?thesis
      by (subst twoStageLoop_st.simps, subst twoStageLoop.simps)
        (simp del: twoStageLoop_st.simps)
  qed
qed

text \<open>A loop that fills the array allocated just before it.\<close>

lemma dividend_loops_st:
  "constGrowthLoop_st inp 1 Dt (length (entryArrays h)) (h\<lparr>entryArrays := entryArrays h @ [[]]\<rparr>) =
     h\<lparr>entryArrays := entryArrays h @ [constGrowthLoop inp 1 Dt []]\<rparr>"
  "twoStageLoop_st inp 1 Dt (length (entryArrays h)) (h\<lparr>entryArrays := entryArrays h @ [[]]\<rparr>) =
     h\<lparr>entryArrays := entryArrays h @ [twoStageLoop inp 1 Dt []]\<rparr>"
  by (simp_all add: constGrowthLoop_st_eq twoStageLoop_st_eq nth_append
      del: constGrowthLoop_st.simps twoStageLoop_st.simps)

text \<open>What is read through the result of the call is the result of \<open>buildDividendSeries\<close>.\<close>

lemma buildDividendSeries_st_result:
  "map_sum id (\<lambda>res. dividendResult_of res (snd (buildDividendSeries_st inp h)))
     (fst (buildDividendSeries_st inp h)) = buildDividendSeries inp"
proof -
  let ?CG = "constGrowthLoop inp 1 (Fin (D0 inp) * (1 + Fin (gConst inp))) []"
  let ?TS = "twoStageLoop inp 1 (Fin (D0 inp) * (1 + Fin (gShort inp))) []"
  let ?H2 = "h\<lparr>entryArrays := entryArrays h @ [?CG]\<rparr>"
  let ?H4 = "?H2\<lparr>entryArrays := entryArrays ?H2 @ [?TS]\<rparr>"
  have e1: "entryArrays ?H4 ! length (entryArrays h) = ?CG"
    by (simp add: nth_append)
  have e2: "entryArrays ?H4 ! length (entryArrays ?H2) = ?TS"
    by (simp add: nth_append)
  show ?thesis
    unfolding buildDividendSeries_st_def buildDividendSeries_def Let_def dividend_loops_st e1 e2
    by (simp add: dividendResult_of_def nth_append
        del: num_simps plus_num.simps times_num.simps divide_num.simps js_lt.simps
          Math_pow.simps
        split: sum.splits option.splits)
qed

lemma buildDividendSeries_st_unchanged:
  "unchanged h (snd (buildDividendSeries_st inp h))"
  unfolding buildDividendSeries_st_def Let_def dividend_loops_st unchanged_def
  by (simp
      del: num_simps plus_num.simps times_num.simps divide_num.simps js_lt.simps
        Math_pow.simps
      split: sum.splits option.splits)

text \<open>The array of a result is in the store that the call leaves.\<close>

lemma buildDividendSeries_st_data_at:
  "fst (buildDividendSeries_st inp h) = Inr res \<Longrightarrow>
   data_at res < length (pointArrays (snd (buildDividendSeries_st inp h)))"
  unfolding buildDividendSeries_st_def Let_def dividend_loops_st
  by (auto
      simp del: num_simps plus_num.simps times_num.simps divide_num.simps js_lt.simps
        Math_pow.simps
      split: sum.splits option.splits)

lemma buildDividendSeries_in_eq: "buildDividendSeries_in h inp = buildDividendSeries inp"
  using buildDividendSeries_st_result [of inp h]
  by (simp add: buildDividendSeries_in_def case_prod_unfold)

lemma buildDividendSeries_twice_eq:
  "buildDividendSeries_twice h inp = (buildDividendSeries inp, buildDividendSeries inp)"
proof -
  let ?first = "fst (buildDividendSeries_st inp h)"
  let ?h1 = "snd (buildDividendSeries_st inp h)"
  let ?second = "fst (buildDividendSeries_st inp ?h1)"
  let ?h2 = "snd (buildDividendSeries_st inp ?h1)"
  have second: "map_sum id (\<lambda>r. dividendResult_of r ?h2) ?second = buildDividendSeries inp"
    by (rule buildDividendSeries_st_result)
  have first: "map_sum id (\<lambda>r. dividendResult_of r ?h2) ?first = buildDividendSeries inp"
  proof (cases ?first)
    case (Inl e)
    with buildDividendSeries_st_result [of inp h] show ?thesis
      by simp
  next
    case (Inr res)
    have "take (length (pointArrays ?h1)) (pointArrays ?h2) = pointArrays ?h1"
      using buildDividendSeries_st_unchanged [of ?h1 inp] by (simp add: unchanged_def)
    then have "take (length (pointArrays ?h1)) (pointArrays ?h2) ! data_at res =
        pointArrays ?h1 ! data_at res"
      by simp
    then have "pointArrays ?h2 ! data_at res = pointArrays ?h1 ! data_at res"
      using buildDividendSeries_st_data_at [OF Inr] by simp
    then have "dividendResult_of res ?h2 = dividendResult_of res ?h1"
      by (simp add: dividendResult_of_def)
    with buildDividendSeries_st_result [of inp h] Inr show ?thesis
      by simp
  qed
  show ?thesis
    by (simp add: buildDividendSeries_twice_def case_prod_unfold first second)
qed

text \<open>
  C8. Each of the three calculators is deterministic: two invocations with identical inputs yield
  identical results, with no dependence on hidden mutable state. Over the explicit store, where a
  calculator could read or write any array that exists when it is called:

  \<^item> the result of a call is the same in every store, \<open>h\<close> or \<open>h'\<close>, in which the call is made;
  \<^item> of two calls in a row with the same input, the second made in the store that the first
    leaves, the two results hold the same values after the second call; for
    \<open>buildDividendSeries\<close> the same error when the call throws;
  \<^item> a call leaves every array that was in the store as it was: it allocates, and writes only to
    what it has allocated.

  The results are compared by the values that they hold. The two results of two calls are different
  objects, with different arrays, as they are in the code: for \<open>buildBondCashFlows\<close> and
  \<open>buildMortgageSchedule\<close>, which always return, the two arrays are at different positions.
  The calculators are those of \<^verbatim>\<open>src/src/App.jsx\<close>. The equality of two results
  does not depend on how a number is computed, only on each operation giving one value for the
  same operands.
\<close>

theorem calculators_deterministic:
  "buildBondCashFlows_in h b = buildBondCashFlows_in h' b \<and>
   fst (buildBondCashFlows_twice h b) = snd (buildBondCashFlows_twice h b) \<and>
   flows_at (fst (buildBondCashFlows_st b h)) \<noteq>
     flows_at (fst (buildBondCashFlows_st b (snd (buildBondCashFlows_st b h)))) \<and>
   unchanged h (snd (buildBondCashFlows_st b h)) \<and>
   buildMortgageSchedule_in h m = buildMortgageSchedule_in h' m \<and>
   fst (buildMortgageSchedule_twice h m) = snd (buildMortgageSchedule_twice h m) \<and>
   rows_at (fst (buildMortgageSchedule_st m h)) \<noteq>
     rows_at (fst (buildMortgageSchedule_st m (snd (buildMortgageSchedule_st m h)))) \<and>
   unchanged h (snd (buildMortgageSchedule_st m h)) \<and>
   buildDividendSeries_in h d = buildDividendSeries_in h' d \<and>
   fst (buildDividendSeries_twice h d) = snd (buildDividendSeries_twice h d) \<and>
   unchanged h (snd (buildDividendSeries_st d h))"
proof -
  have bond: "flows_at (fst (buildBondCashFlows_st b h)) \<noteq>
      flows_at (fst (buildBondCashFlows_st b (snd (buildBondCashFlows_st b h))))"
    by (simp add: buildBondCashFlows_st_eq del: num_simps)
  have bond': "unchanged h (snd (buildBondCashFlows_st b h))"
    by (simp add: buildBondCashFlows_st_eq unchanged_def del: num_simps)
  have mortgage: "rows_at (fst (buildMortgageSchedule_st m h)) \<noteq>
      rows_at (fst (buildMortgageSchedule_st m (snd (buildMortgageSchedule_st m h))))"
    by (simp add: buildMortgageSchedule_st_eq del: num_simps)
  have mortgage': "unchanged h (snd (buildMortgageSchedule_st m h))"
    by (simp add: buildMortgageSchedule_st_eq unchanged_def del: num_simps)
  show ?thesis
    by (simp only: bond bond' mortgage mortgage' buildBondCashFlows_in_eq
        buildBondCashFlows_twice_eq buildMortgageSchedule_in_eq buildMortgageSchedule_twice_eq
        buildDividendSeries_in_eq buildDividendSeries_twice_eq buildDividendSeries_st_unchanged
        fst_conv snd_conv not_False_eq_True simp_thms)
qed

end
